theory Spec2Isabelle
  imports Main "HOL-Library.Sublist"
begin

section \<open>The DAG publisher: \<^verbatim>\<open>composer/cicd_sample/utils/add_dags_to_composer.py\<close>\<close>

subsection \<open>Files, directories and the object store\<close>

text \<open>
  A directory is the list of its entries in the order \<^verbatim>\<open>os.scandir\<close> yields them; an
  entry is a name and either a regular file (its bytes) or a sub-directory. Symbolic
  links and unreadable entries are not modelled. The filesystem maps the path of a
  directory the script refers to (\<^verbatim>\<open>dags_directory\<close>, \<^verbatim>\<open>temp_dir\<close>) to the tree found there.
\<close>

datatype node = File string | Dir "(string \<times> node) list"

type_synonym filesystem = "string \<Rightarrow> node option"

datatype error =
    FileNotFoundError string
  | NotADirectoryError string
  | UploadError string string

text \<open>
  The bucket contents are a map from (bucket name, object key) to the stored content.
  \<open>requests\<close> is the log of the write requests sent so far, each with bucket, key and
  payload, whether the write succeeded or not.
\<close>

record world =
  files :: filesystem
  blobs :: "string \<times> string \<Rightarrow> string option"
  requests :: "(string \<times> string \<times> string) list"

subsection \<open>Library functions the script calls\<close>

text \<open>
  \<^verbatim>\<open>fnmatch\<close> on POSIX, for patterns built from literal characters, \<^verbatim>\<open>*\<close> and \<^verbatim>\<open>?\<close>
  (the three patterns of the script have no bracket expression): the whole name must
  match, \<^verbatim>\<open>*\<close> stands for any run of characters and \<^verbatim>\<open>?\<close> for one.
\<close>

fun fnmatch :: "string \<Rightarrow> string \<Rightarrow> bool" where
  "fnmatch [] [] = True"
| "fnmatch (c # cs) [] = False"
| "fnmatch [] (p # ps) = (p = CHR ''*'' \<and> fnmatch [] ps)"
| "fnmatch (c # cs) (p # ps) =
     (if p = CHR ''*'' then fnmatch (c # cs) ps \<or> fnmatch cs (p # ps)
      else if p = CHR ''?'' then fnmatch cs ps
      else c = p \<and> fnmatch cs ps)"

text \<open>
  \<^verbatim>\<open>shutil.ignore_patterns(*patterns)\<close> returns a function that, given the names of a
  directory, returns those matching some pattern.
\<close>

definition ignore_patterns :: "string list \<Rightarrow> string list \<Rightarrow> string list" where
  "ignore_patterns patterns names =
     concat (map (\<lambda>pattern. filter (\<lambda>name. fnmatch name pattern) names) patterns)"

text \<open>
  \<^verbatim>\<open>shutil.copytree\<close>, on the entries of the source directory: the callback is asked
  once per directory with the names found there, entries whose name it returns are
  skipped (files and directories alike), sub-directories are copied recursively with
  the same callback, files are copied as they are.
\<close>

fun copy_entries :: "(string list \<Rightarrow> string list) \<Rightarrow> (string \<times> node) list \<Rightarrow> (string \<times> node) list"
  and copy_node :: "(string list \<Rightarrow> string list) \<Rightarrow> node \<Rightarrow> node" where
  "copy_entries ignore entries =
     (let ignored_names = ignore (map fst entries)
      in map (\<lambda>(name, n). (name, copy_node ignore n))
           (filter (\<lambda>(name, n). name \<notin> set ignored_names) entries))"
| "copy_node ignore (File bytes) = File bytes"
| "copy_node ignore (Dir entries) = Dir (copy_entries ignore entries)"

text \<open>
  \<^verbatim>\<open>tempfile.mkdtemp()\<close> creates a new, empty directory and returns its absolute path.
  The path it picks is the parameter \<open>temp_dir\<close> of the model.
\<close>

definition mkdtemp :: "string \<Rightarrow> world \<Rightarrow> string \<times> world" where
  "mkdtemp temp_dir w = (temp_dir, w\<lparr>files := (files w)(temp_dir \<mapsto> Dir [])\<rparr>)"

text \<open>
  \<^verbatim>\<open>copytree(src, dst, ignore=..., dirs_exist_ok=True)\<close>: listing a source that does not
  exist, or is a file, raises. The destination of the script is the directory
  \<^verbatim>\<open>mkdtemp\<close> has just created, so what is copied is all it holds afterwards.
\<close>

definition copytree ::
  "string \<Rightarrow> string \<Rightarrow> (string list \<Rightarrow> string list) \<Rightarrow> world \<Rightarrow> (error + string) \<times> world" where
  "copytree src dst ignore w =
     (case files w src of
        None \<Rightarrow> (Inl (FileNotFoundError src), w)
      | Some (File bytes) \<Rightarrow> (Inl (NotADirectoryError src), w)
      | Some (Dir entries) \<Rightarrow>
          (Inr dst, w\<lparr>files := (files w)(dst \<mapsto> Dir (copy_entries ignore entries))\<rparr>))"

text \<open>\<^verbatim>\<open>os.path.join\<close> of two components, on POSIX.\<close>

definition os_path_join :: "string \<Rightarrow> string \<Rightarrow> string" where
  "os_path_join a b =
     (if take 1 b = ''/'' then b
      else if a = [] \<or> last a = CHR ''/'' then a @ b
      else a @ ''/'' @ b)"

definition ishidden :: "string \<Rightarrow> bool" where
  "ishidden path = (take 1 path = ''.'')"

text \<open>
  \<^verbatim>\<open>glob.glob(dirname + "/" + pattern)\<close> for a directory name without wildcard and a
  pattern without slash: the names of the directory's entries (files and directories)
  that match the pattern, without the names starting with a dot unless the pattern
  starts with one, each joined to the directory name. A directory that cannot be
  listed gives the empty list.
\<close>

definition glob :: "string \<Rightarrow> string \<Rightarrow> world \<Rightarrow> string list" where
  "glob dirname pattern w =
     (case files w dirname of
        Some (Dir entries) \<Rightarrow>
          (let names = map fst entries;
               names = (if \<not> ishidden pattern then filter (\<lambda>x. \<not> ishidden x) names else names)
           in map (os_path_join dirname) (filter (\<lambda>name. fnmatch name pattern) names))
      | _ \<Rightarrow> [])"

text \<open>
  \<^verbatim>\<open>str.replace(old, new)\<close>: every occurrence of \<open>old\<close>, found from the left and not
  overlapping an earlier one, is replaced. An empty \<open>old\<close> matches before every
  character and at the end.
\<close>

function replace :: "string \<Rightarrow> string \<Rightarrow> string \<Rightarrow> string" where
  "replace s old new =
     (if old = [] then new @ concat (map (\<lambda>c. c # new) s)
      else if s = [] then []
      else if prefix old s then new @ replace (drop (length old) s) old new
      else hd s # replace (tl s) old new)"
  by pat_completeness auto
termination
  by (relation "measure (\<lambda>(s, old, new). length s)") auto

text \<open>
  \<^verbatim>\<open>bucket.blob(key).upload_from_string(data)\<close>: one write request to the object store.
  Whether the request with a given sequence number fails is decided by \<open>fault\<close>; a
  failed request raises and stores nothing.
\<close>

definition upload_from_string ::
  "(nat \<Rightarrow> bool) \<Rightarrow> string \<Rightarrow> string \<Rightarrow> string \<Rightarrow> world \<Rightarrow> error option \<times> world" where
  "upload_from_string fault bucket_name key data w =
     (let w' = w\<lparr>requests := requests w @ [(bucket_name, key, data)]\<rparr>
      in if fault (length (requests w)) then (Some (UploadError bucket_name key), w')
         else (None, w'\<lparr>blobs := (blobs w)((bucket_name, key) \<mapsto> data)\<rparr>))"

subsection \<open>The script\<close>

text \<open>Console output (\<^verbatim>\<open>print\<close>) is left out of the model.\<close>

definition files_to_ignore :: "string list \<Rightarrow> string list" where
  "files_to_ignore = ignore_patterns [''__init__.py'', ''*_test.py'']"

definition create_dags_list ::
  "string \<Rightarrow> string \<Rightarrow> world \<Rightarrow> (error + string \<times> string list) \<times> world" where
  "create_dags_list tmp dags_directory w =
     (case mkdtemp tmp w of (temp_dir, w1) \<Rightarrow>
        (case copytree dags_directory temp_dir files_to_ignore w1 of
           (Inl e, w2) \<Rightarrow> (Inl e, w2)
         | (Inr dst, w2) \<Rightarrow>
             (let dags = glob temp_dir ''*.py'' w2
              in (Inr (temp_dir, dags), w2))))"

text \<open>
  Line 40, \<^verbatim>\<open>dag.replace(f"{temp_dir}/", "")\<close>: the object key of a staged path.
\<close>

definition object_key :: "string \<Rightarrow> string \<Rightarrow> string" where
  "object_key temp_dir dag = replace dag (temp_dir @ ''/'') []"

text \<open>
  The loop of lines 38 to 45. The blob is named by the key and the key is also the
  argument of \<^verbatim>\<open>upload_from_string\<close>. An upload that raises ends the loop: nothing
  catches it.
\<close>

fun upload_loop ::
  "(nat \<Rightarrow> bool) \<Rightarrow> string \<Rightarrow> string \<Rightarrow> string list \<Rightarrow> world \<Rightarrow> error option \<times> world" where
  "upload_loop fault temp_dir bucket_name [] w = (None, w)"
| "upload_loop fault temp_dir bucket_name (dag # dags) w =
     (let dag = object_key temp_dir dag
      in case upload_from_string fault bucket_name dag dag w of
           (Some e, w') \<Rightarrow> (Some e, w')
         | (None, w') \<Rightarrow> upload_loop fault temp_dir bucket_name dags w')"

definition upload_dags_to_composer ::
  "(nat \<Rightarrow> bool) \<Rightarrow> string \<Rightarrow> string \<Rightarrow> string \<Rightarrow> world \<Rightarrow> error option \<times> world" where
  "upload_dags_to_composer fault tmp dags_directory bucket_name w =
     (case create_dags_list tmp dags_directory w of
        (Inl e, w1) \<Rightarrow> (Some e, w1)
      | (Inr (temp_dir, dags), w1) \<Rightarrow> upload_loop fault temp_dir bucket_name dags w1)"

section \<open>The deployment verifier: \<^verbatim>\<open>run/filesystem/e2e_test.py\<close>\<close>

subsection \<open>Processes, responses and exceptions\<close>

text \<open>
  What \<^verbatim>\<open>subprocess.run\<close> returns, what \<^verbatim>\<open>urlopen\<close> returns, and the exceptions the
  module can raise. \<open>CalledProcessError\<close> carries the return code and the captured
  standard error (\<open>None\<close> when the call did not capture it).
\<close>

record completed_process =
  returncode :: int
  stdout :: string
  stderr :: string

record response =
  status :: nat
  body :: string

datatype exn =
    CalledProcessError int "string option"
  | NameError string
  | Exception string
  | KeyError string
  | HTTPError nat
  | URLError
  | UnicodeDecodeError
  | AssertionError

subsection \<open>The retry-wrapped CLI helper\<close>

text \<open>
  The names bound at module level: the imports of lines 19 to 26, the two constants and
  the functions. A name used in a function body that is neither local nor in this list
  nor a builtin raises \<open>NameError\<close> when it is evaluated.
\<close>

definition module_globals :: "string list" where
  "module_globals =
     [''backoff'', ''datetime'', ''os'', ''subprocess'', ''request'', ''uuid'', ''pytest'',
      ''SUFFIX'', ''PROJECT'', ''gcloud_cli'', ''deployed_service'',
      ''service_url_auth_token'', ''test_end_to_end'']"

text \<open>\<^verbatim>\<open>subprocess.run(..., capture_output=True, check=True)\<close> on the finished process.\<close>

definition subprocess_run_check ::
  "completed_process \<Rightarrow> exn + completed_process" where
  "subprocess_run_check output =
     (if returncode output \<noteq> 0
      then Inl (CalledProcessError (returncode output) (Some (stderr output)))
      else Inr output)"

text \<open>
  The body of \<^verbatim>\<open>gcloud_cli\<close>, lines 44 to 57. \<open>shell\<close> answers the command line;
  \<open>json_loads\<close> stands for \<^verbatim>\<open>json.loads\<close>, called only if the name \<^verbatim>\<open>json\<close> resolves.
  Whatever the \<^verbatim>\<open>try\<close> block raises is caught by \<^verbatim>\<open>except Exception\<close>, and control
  falls through to the \<^verbatim>\<open>raise\<close> of line 57.
\<close>

definition gcloud_cli_call ::
  "(string \<Rightarrow> exn + 'j) \<Rightarrow> (string \<Rightarrow> completed_process) \<Rightarrow> string \<Rightarrow> exn + 'j" where
  "gcloud_cli_call json_loads shell command =
     (case subprocess_run_check (shell (''gcloud '' @ command @ '' --quiet --format=json'')) of
        Inl e \<Rightarrow> Inl e
      | Inr output \<Rightarrow>
          (case (if ''json'' \<in> set module_globals then json_loads (stdout output)
                 else Inl (NameError ''json'')) of
             Inr entries \<Rightarrow> Inr entries
           | Inl e \<Rightarrow> Inl (Exception (stderr output))))"

text \<open>
  \<^verbatim>\<open>backoff.on_exception(backoff.expo, Exception, max_tries=3)\<close>: the loop of the
  decorator. It counts the attempt, calls the target, returns its value, and on an
  exception gives up (re-raising it) when the count equals \<open>max_tries\<close>, else sleeps and
  goes round again. \<open>target n\<close> is the outcome of the \<open>n\<close>-th call. The sleep is not
  modelled. The loop has no other exit, so it is a partial function: \<open>None\<close> is a run
  that never ends.
\<close>

partial_function (option) retry_exception ::
  "(nat \<Rightarrow> exn + 'a) \<Rightarrow> nat \<Rightarrow> nat \<Rightarrow> (exn + 'a) option" where
  "retry_exception target max_tries tries =
     (let tries = tries + 1
      in case target tries of
           Inr ret \<Rightarrow> Some (Inr ret)
         | Inl e \<Rightarrow>
             if tries = max_tries then Some (Inl e)
             else retry_exception target max_tries tries)"

declare retry_exception.simps [code]

text \<open>The decorated helper; \<open>shell n\<close> answers the \<open>n\<close>-th invocation of the CLI.\<close>

definition gcloud_cli ::
  "(string \<Rightarrow> exn + 'j) \<Rightarrow> (nat \<Rightarrow> string \<Rightarrow> completed_process) \<Rightarrow> string \<Rightarrow> (exn + 'j) option" where
  "gcloud_cli json_loads shell command =
     retry_exception (\<lambda>tries. gcloud_cli_call json_loads (shell tries) command) 3 0"

subsection \<open>The environment of the test and the trace it leaves\<close>

text \<open>
  The test talks to the CLI, to the deployed service and to the clock. Their answers
  are the fields of \<open>env\<close>; \<open>SUFFIX\<close> and \<open>PROJECT\<close> are the module constants of lines 29
  and 30. Text is represented by its UTF-8 bytes, and \<open>utf8\<close> tells which byte strings
  decode. Every command run and every request sent is appended to a log of actions.
\<close>

record datetime =
  year :: nat
  month :: nat
  day :: nat
  hour :: nat
  minute :: nat
  second :: nat

datatype action = Run "string list" | Get string "(string \<times> string) list"

record env =
  SUFFIX :: string
  PROJECT :: string
  environ :: "string \<Rightarrow> string option"
  shell :: "string list \<Rightarrow> completed_process"
  http :: "string \<Rightarrow> (string \<times> string) list \<Rightarrow> exn + response"
  utf8 :: "string \<Rightarrow> bool"
  utcnow :: datetime

subsection \<open>Formatting the date\<close>

text \<open>
  \<^verbatim>\<open>'{dt:%a}-{dt:%b}-{dt:%d}-{dt:%H}'.format(dt=date)\<close> calls \<^verbatim>\<open>strftime\<close> once per
  field. The weekday is computed as \<^verbatim>\<open>datetime.weekday()\<close> does, from the proleptic
  Gregorian ordinal of the date (Monday is 0); the names are those of the C locale, the
  locale of a process that never calls \<^verbatim>\<open>setlocale\<close>. Years start at 1 and months at 1.
\<close>

definition is_leap :: "nat \<Rightarrow> bool" where
  "is_leap y = (y mod 4 = 0 \<and> (y mod 100 \<noteq> 0 \<or> y mod 400 = 0))"

definition days_before_year :: "nat \<Rightarrow> nat" where
  "days_before_year yr = (let y = yr - 1 in y * 365 + y div 4 - y div 100 + y div 400)"

definition DAYS_BEFORE_MONTH :: "nat list" where
  "DAYS_BEFORE_MONTH = [0, 0, 31, 59, 90, 120, 151, 181, 212, 243, 273, 304, 334]"

definition days_before_month :: "nat \<Rightarrow> nat \<Rightarrow> nat" where
  "days_before_month yr m = DAYS_BEFORE_MONTH ! m + (if m > 2 \<and> is_leap yr then 1 else 0)"

definition ymd2ord :: "nat \<Rightarrow> nat \<Rightarrow> nat \<Rightarrow> nat" where
  "ymd2ord yr m d = days_before_year yr + days_before_month yr m + d"

definition weekday :: "datetime \<Rightarrow> nat" where
  "weekday dt = (ymd2ord (year dt) (month dt) (day dt) + 6) mod 7"

definition day_abbr :: "string list" where
  "day_abbr = [''Mon'', ''Tue'', ''Wed'', ''Thu'', ''Fri'', ''Sat'', ''Sun'']"

definition month_abbr :: "string list" where
  "month_abbr = [[], ''Jan'', ''Feb'', ''Mar'', ''Apr'', ''May'', ''Jun'',
                 ''Jul'', ''Aug'', ''Sep'', ''Oct'', ''Nov'', ''Dec'']"

text \<open>\<^verbatim>\<open>%d\<close> and \<^verbatim>\<open>%H\<close>: two decimal digits, for a number below 100.\<close>

definition two_digits :: "nat \<Rightarrow> string" where
  "two_digits n = [''0123456789'' ! (n div 10), ''0123456789'' ! (n mod 10)]"

datatype directive = Pct_a | Pct_b | Pct_d | Pct_H

fun strftime :: "datetime \<Rightarrow> directive \<Rightarrow> string" where
  "strftime dt Pct_a = day_abbr ! weekday dt"
| "strftime dt Pct_b = month_abbr ! month dt"
| "strftime dt Pct_d = two_digits (day dt)"
| "strftime dt Pct_H = two_digits (hour dt)"

definition date_token :: "datetime \<Rightarrow> string" where
  "date_token dt =
     strftime dt Pct_a @ ''-'' @ strftime dt Pct_b @ ''-'' @ strftime dt Pct_d @ ''-''
       @ strftime dt Pct_H"

subsection \<open>Library calls of the fixtures and the test\<close>

text \<open>\<^verbatim>\<open>bytes.strip()\<close> removes ASCII whitespace at both ends.\<close>

definition isspace :: "char \<Rightarrow> bool" where
  "isspace c = (c \<in> set [CHR '' '', CHR 0x09, CHR 0x0A, CHR 0x0B, CHR 0x0C, CHR 0x0D])"

definition strip :: "string \<Rightarrow> string" where
  "strip s = rev (dropWhile isspace (rev (dropWhile isspace s)))"

definition decode :: "env \<Rightarrow> string \<Rightarrow> exn + string" where
  "decode env bytes = (if utf8 env bytes then Inr bytes else Inl UnicodeDecodeError)"

text \<open>\<^verbatim>\<open>subprocess.check_call(args)\<close>: nothing is captured.\<close>

definition check_call :: "env \<Rightarrow> string list \<Rightarrow> action list \<Rightarrow> (exn + unit) \<times> action list" where
  "check_call env args log =
     (let retcode = returncode (shell env args)
      in if retcode \<noteq> 0 then (Inl (CalledProcessError retcode None), log @ [Run args])
         else (Inr (), log @ [Run args]))"

text \<open>\<^verbatim>\<open>subprocess.run(args, stdout=subprocess.PIPE, check=True)\<close>.\<close>

definition run_check_stdout ::
  "env \<Rightarrow> string list \<Rightarrow> action list \<Rightarrow> (exn + completed_process) \<times> action list" where
  "run_check_stdout env args log =
     (let output = shell env args
      in if returncode output \<noteq> 0
         then (Inl (CalledProcessError (returncode output) None), log @ [Run args])
         else (Inr output, log @ [Run args]))"

text \<open>
  \<^verbatim>\<open>request.urlopen(req)\<close>: one GET with the headers of the request. \<open>http\<close> gives the
  final answer of the server or a transport error; an answer outside 200 to 299 is
  raised as \<open>HTTPError\<close> by the opener.
\<close>

definition urlopen ::
  "env \<Rightarrow> string \<times> (string \<times> string) list \<Rightarrow> action list \<Rightarrow> (exn + response) \<times> action list" where
  "urlopen env req log =
     (case http env (fst req) (snd req) of
        Inl e \<Rightarrow> (Inl e, log @ [Get (fst req) (snd req)])
      | Inr response \<Rightarrow>
          if 200 \<le> status response \<and> status response < 300
          then (Inr response, log @ [Get (fst req) (snd req)])
          else (Inl (HTTPError (status response)), log @ [Get (fst req) (snd req)]))"

subsection \<open>The fixtures\<close>

definition build_command :: "env \<Rightarrow> string \<Rightarrow> string \<Rightarrow> string \<Rightarrow> string list" where
  "build_command env service_name ip_address connector =
     [''gcloud'', ''builds'', ''submit'', ''--config'', ''cloudbuild.yaml'', ''--project'', PROJECT env,
      ''--substitutions=_SERVICE_NAME='' @ service_name @ '',_FILESTORE_IP_ADDRESS='' @ ip_address
        @ '',_CONNECTOR='' @ connector]"

definition delete_command :: "env \<Rightarrow> string \<Rightarrow> string list" where
  "delete_command env service_name =
     [''gcloud'', ''run'', ''services'', ''delete'', service_name, ''--region=us-central1'',
      ''--platform=managed'', ''--quiet'', ''--async'', ''--project'', PROJECT env]"

definition describe_command :: "env \<Rightarrow> string \<Rightarrow> string list" where
  "describe_command env service_name =
     [''gcloud'', ''run'', ''services'', ''describe'', service_name, ''--region=us-central1'',
      ''--platform=managed'', ''--format=value(status.url)'', ''--project'', PROJECT env]"

text \<open>
  \<^verbatim>\<open>deployed_service\<close> is a generator fixture: the code before \<^verbatim>\<open>yield\<close> is its setup,
  the code after it its teardown. \<^verbatim>\<open>os.environ[...]\<close> raises \<open>KeyError\<close> on a variable
  that is not set.
\<close>

definition deployed_service_setup :: "env \<Rightarrow> action list \<Rightarrow> (exn + string) \<times> action list" where
  "deployed_service_setup env log =
     (let service_name = ''filesystem-'' @ SUFFIX env
      in case environ env ''CONNECTOR'' of
           None \<Rightarrow> (Inl (KeyError ''CONNECTOR''), log)
         | Some connector \<Rightarrow>
             (case environ env ''IP_ADDRESS'' of
                None \<Rightarrow> (Inl (KeyError ''IP_ADDRESS''), log)
              | Some ip_address \<Rightarrow>
                  (case check_call env (build_command env service_name ip_address connector) log of
                     (Inl e, log') \<Rightarrow> (Inl e, log')
                   | (Inr u, log') \<Rightarrow> (Inr service_name, log'))))"

definition deployed_service_teardown ::
  "env \<Rightarrow> string \<Rightarrow> action list \<Rightarrow> (exn + unit) \<times> action list" where
  "deployed_service_teardown env service_name log =
     check_call env (delete_command env service_name) log"

text \<open>\<^verbatim>\<open>service_url_auth_token\<close> has a setup and nothing after its \<^verbatim>\<open>yield\<close>.\<close>

definition service_url_auth_token_setup ::
  "env \<Rightarrow> string \<Rightarrow> action list \<Rightarrow> (exn + string \<times> string) \<times> action list" where
  "service_url_auth_token_setup env deployed_service log =
     (case run_check_stdout env (describe_command env deployed_service) log of
        (Inl e, log1) \<Rightarrow> (Inl e, log1)
      | (Inr described, log1) \<Rightarrow>
          (case decode env (strip (stdout described)) of
             Inl e \<Rightarrow> (Inl e, log1)
           | Inr service_url \<Rightarrow>
               (case run_check_stdout env [''gcloud'', ''auth'', ''print-identity-token''] log1 of
                  (Inl e, log2) \<Rightarrow> (Inl e, log2)
                | (Inr printed, log2) \<Rightarrow>
                    (case decode env (strip (stdout printed)) of
                       Inl e \<Rightarrow> (Inl e, log2)
                     | Inr auth_token \<Rightarrow> (Inr (service_url, auth_token), log2)))))"

subsection \<open>The test\<close>

definition test_end_to_end ::
  "env \<Rightarrow> string \<times> string \<Rightarrow> action list \<Rightarrow> (exn + unit) \<times> action list" where
  "test_end_to_end env service_url_auth_token log =
     (case service_url_auth_token of (service_url, auth_token) \<Rightarrow>
        (case urlopen env (service_url, [(''Authorization'', ''Bearer '' @ auth_token)]) log of
           (Inl e, log1) \<Rightarrow> (Inl e, log1)
         | (Inr response, log1) \<Rightarrow>
             if status response \<noteq> 200 then (Inl AssertionError, log1)
             else
               (let mnt_url = service_url @ ''/mnt/nfs/filestore''
                in case urlopen env (mnt_url, [(''Authorization'', ''Bearer '' @ auth_token)]) log1 of
                     (Inl e, log2) \<Rightarrow> (Inl e, log2)
                   | (Inr response, log2) \<Rightarrow>
                       if status response \<noteq> 200 then (Inl AssertionError, log2)
                       else
                         (let date = utcnow env; body = body response
                          in case decode env body of
                               Inl e \<Rightarrow> (Inl e, log2)
                             | Inr text \<Rightarrow>
                                 if sublist (date_token date) text then (Inr (), log2)
                                 else (Inl AssertionError, log2)))))"

subsection \<open>How pytest runs the test\<close>

text \<open>
  pytest sets the fixtures up in the order of their dependencies, runs the test if every
  setup succeeded, and then finalises, in reverse order, each fixture whose setup reached
  its \<^verbatim>\<open>yield\<close>, whatever the test or a later setup did. The result is the outcome of the
  test, the error of the teardown if it raised, and the log.
\<close>

datatype outcome = Passed | Failed exn | SetupError exn

definition pytest_run :: "env \<Rightarrow> outcome \<times> exn option \<times> action list" where
  "pytest_run env =
     (case deployed_service_setup env [] of
        (Inl e, log) \<Rightarrow> (SetupError e, None, log)
      | (Inr service_name, log) \<Rightarrow>
          (case (case service_url_auth_token_setup env service_name log of
                   (Inl e, log1) \<Rightarrow> (SetupError e, log1)
                 | (Inr fixture, log1) \<Rightarrow>
                     (case test_end_to_end env fixture log1 of
                        (Inl e, log2) \<Rightarrow> (Failed e, log2)
                      | (Inr u, log2) \<Rightarrow> (Passed, log2))) of
             (result, log3) \<Rightarrow>
               (case deployed_service_teardown env service_name log3 of
                  (Inl e, log4) \<Rightarrow> (result, Some e, log4)
                | (Inr u, log4) \<Rightarrow> (result, None, log4))))"

section \<open>Auxiliary notions for the proofs\<close>

text \<open>
  The names the selection step stages: direct entries of the source directory that end in
  \<^verbatim>\<open>.py\<close>, are not hidden and match neither exclusion pattern.
\<close>

definition staged_names :: "(string \<times> node) list \<Rightarrow> string list" where
  "staged_names entries =
     filter (\<lambda>name. suffix ''.py'' name \<and> \<not> ishidden name
                \<and> name \<noteq> ''__init__.py'' \<and> \<not> suffix ''_test.py'' name) (map fst entries)"

text \<open>The bucket after each key of a list has been stored under itself.\<close>

definition put_all ::
  "string \<Rightarrow> string list \<Rightarrow> (string \<times> string \<Rightarrow> string option) \<Rightarrow> (string \<times> string \<Rightarrow> string option)" where
  "put_all bucket_name keys m = foldl (\<lambda>m k. m((bucket_name, k) \<mapsto> k)) m keys"

text \<open>The world after one request of the loop: sent and refused, or sent and stored.\<close>

definition sent :: "string \<Rightarrow> string \<Rightarrow> string \<Rightarrow> world \<Rightarrow> world" where
  "sent b T dag w = w\<lparr>requests := requests w @ [(b, object_key T dag, object_key T dag)]\<rparr>"

definition stored :: "string \<Rightarrow> string \<Rightarrow> string \<Rightarrow> world \<Rightarrow> world" where
  "stored b T dag w =
     w\<lparr>requests := requests w @ [(b, object_key T dag, object_key T dag)],
       blobs := (blobs w)((b, object_key T dag) \<mapsto> object_key T dag)\<rparr>"

text \<open>A source directory with one DAG file, used in the examples.\<close>

definition example_world :: world where
  "example_world =
     \<lparr>files = [''../dags/'' \<mapsto> Dir [(''a.py'', File ''import airflow'')]],
      blobs = Map.empty, requests = []\<rparr>"

text \<open>
  A source directory with DAG files, a package marker, a test, a text file, a hidden
  file and a sub-directory; a directory with a text file only; and the directory of the
  scenario with three files.
\<close>

definition sample_entries :: "(string \<times> node) list" where
  "sample_entries =
     [(''a.py'', File ''import airflow''), (''__init__.py'', File []),
      (''b_test.py'', File ''assert True''), (''notes.txt'', File ''todo''),
      (''.hidden.py'', File []), (''etl.py'', File ''dag = 1''),
      (''sub'', Dir [(''c.py'', File ''x = 1'')])]"

definition sample_world :: world where
  "sample_world = \<lparr>files = [''../dags/'' \<mapsto> Dir sample_entries], blobs = Map.empty, requests = []\<rparr>"



text \<open>
  Environments of the deployment verifier used in the examples: one where the service
  answers as expected, one where every request is answered with status 500, and one where
  the listing of the mounted path lacks the date.
\<close>

definition verifier_env :: env where
  "verifier_env = \<lparr>SUFFIX = ''0f3a9c'', PROJECT = ''my-project'',
     environ = [''CONNECTOR'' \<mapsto> ''my-connector'', ''IP_ADDRESS'' \<mapsto> ''10.0.0.2''],
     shell = (\<lambda>args. if take 4 args = [''gcloud'', ''run'', ''services'', ''describe'']
                then \<lparr>returncode = 0, stdout = ''https://svc.example '', stderr = []\<rparr>
                else if take 2 args = [''gcloud'', ''auth'']
                then \<lparr>returncode = 0, stdout = ''tok '', stderr = []\<rparr>
                else \<lparr>returncode = 0, stdout = [], stderr = []\<rparr>),
     http = (\<lambda>url headers. if url = ''https://svc.example'' then Inr \<lparr>status = 200, body = ''ok''\<rparr>
                else Inr \<lparr>status = 200, body = ''files: Wed-Nov-04-21.txt''\<rparr>),
     utf8 = (\<lambda>b. True),
     utcnow = \<lparr>year = 2026, month = 11, day = 4, hour = 21, minute = 5, second = 0\<rparr>\<rparr>"


definition stale_env :: env where
  "stale_env = verifier_env\<lparr>http := (\<lambda>url headers. Inr \<lparr>status = 200, body = ''files: none''\<rparr>)\<rparr>"

section \<open>Properties of the DAG publisher\<close>

subsection \<open>Patterns and the selection step\<close>

declare replace.simps [simp del]

lemma fnmatch_literal:
  "CHR ''*'' \<notin> set p \<Longrightarrow> CHR ''?'' \<notin> set p \<Longrightarrow> fnmatch n p = (n = p)"
  by (induction n p rule: fnmatch.induct) auto

lemma fnmatch_star_literal:
  "CHR ''*'' \<notin> set p \<Longrightarrow> CHR ''?'' \<notin> set p \<Longrightarrow> fnmatch n (CHR ''*'' # p) = suffix p n"
proof (induction n)
  case Nil
  then show ?case by (cases p) (auto simp: fnmatch_literal)
next
  case (Cons c cs)
  then show ?case
    by (auto simp: fnmatch_literal suffix_Cons)
qed

lemma fnmatch_init: "fnmatch n ''__init__.py'' = (n = ''__init__.py'')"
  by (rule fnmatch_literal) simp_all

lemma fnmatch_test: "fnmatch n ''*_test.py'' = suffix ''_test.py'' n"
  by (rule fnmatch_star_literal) simp_all

lemma fnmatch_py: "fnmatch n ''*.py'' = suffix ''.py'' n"
  by (rule fnmatch_star_literal) simp_all

lemma files_to_ignore_iff:
  "name \<in> set (files_to_ignore names) \<longleftrightarrow>
     name \<in> set names \<and> (name = ''__init__.py'' \<or> suffix ''_test.py'' name)"
  by (auto simp: files_to_ignore_def ignore_patterns_def fnmatch_init fnmatch_test)

lemma names_copy_entries:
  "map fst (copy_entries ignore entries) =
     filter (\<lambda>name. name \<notin> set (ignore (map fst entries))) (map fst entries)"
  by (induction entries) (auto simp: Let_def filter_map o_def case_prod_unfold)

lemma create_dags_list_Dir:
  assumes "files w tmp = None" and "files w d = Some (Dir entries)"
  shows "create_dags_list tmp d w =
           (Inr (tmp, map (os_path_join tmp) (staged_names entries)),
            w\<lparr>files := (files w)(tmp \<mapsto> Dir (copy_entries files_to_ignore entries))\<rparr>)"
proof -
  from assms have ne: "d \<noteq> tmp" by auto
  have "filter (\<lambda>name. fnmatch name ''*.py'')
          (filter (\<lambda>x. \<not> ishidden x) (map fst (copy_entries files_to_ignore entries)))
        = staged_names entries"
    unfolding names_copy_entries staged_names_def fnmatch_py
    by (auto simp: files_to_ignore_iff intro!: filter_cong)
  moreover have "\<not> ishidden ''*.py''" by (simp add: ishidden_def)
  ultimately show ?thesis
    using assms ne
    by (simp add: create_dags_list_def mkdtemp_def copytree_def glob_def Let_def)
qed

lemma create_dags_list_keeps:
  "requests (snd (create_dags_list tmp d w)) = requests w \<and>
   blobs (snd (create_dags_list tmp d w)) = blobs w"
  by (simp add: create_dags_list_def mkdtemp_def copytree_def Let_def
      split: option.splits node.splits)

subsection \<open>The object key\<close>

lemma replace_no_occurrence:
  "c \<in> set old \<Longrightarrow> c \<notin> set s \<Longrightarrow> replace s old new = s"
proof (induction s)
  case Nil
  then show ?case by (subst replace.simps) auto
next
  case (Cons a s)
  have "\<not> prefix old (a # s)"
  proof
    assume "prefix old (a # s)"
    then have "set old \<subseteq> set (a # s)" by (rule set_mono_prefix)
    with Cons.prems show False by auto
  qed
  with Cons show ?case
    by (subst replace.simps) auto
qed

lemma replace_strip_prefix:
  assumes "c \<in> set old" and "c \<notin> set s"
  shows "replace (old @ s) old [] = s"
proof -
  from assms have "old \<noteq> []" by auto
  then have "replace (old @ s) old [] = replace s old []"
    by (subst replace.simps) simp
  with assms show ?thesis by (simp add: replace_no_occurrence)
qed

lemma os_path_join_plain:
  "tmp \<noteq> [] \<Longrightarrow> last tmp \<noteq> CHR ''/'' \<Longrightarrow> CHR ''/'' \<notin> set name \<Longrightarrow>
   os_path_join tmp name = tmp @ ''/'' @ name"
  by (cases name) (auto simp: os_path_join_def)

lemma key_of_staged:
  assumes "tmp \<noteq> []" "last tmp \<noteq> CHR ''/''" "CHR ''/'' \<notin> set name"
  shows "object_key tmp (os_path_join tmp name) = name"
proof -
  have "replace ((tmp @ ''/'') @ name) (tmp @ ''/'') [] = name"
    by (rule replace_strip_prefix [where c = "CHR ''/''"]) (use assms in auto)
  with assms show ?thesis by (simp add: os_path_join_plain object_key_def)
qed

subsection \<open>The upload loop\<close>

lemma put_all_Nil [simp]: "put_all b [] m = m"
  by (simp add: put_all_def)

lemma put_all_Cons [simp]: "put_all b (k # ks) m = put_all b ks (m((b, k) \<mapsto> k))"
  by (simp add: put_all_def)

lemma put_all_apply:
  "put_all b ks m (b', k') = (if b' = b \<and> k' \<in> set ks then Some k' else m (b', k'))"
  by (induction ks arbitrary: m) auto

lemma stored_simps [simp]:
  "requests (stored b T dag w) = requests w @ [(b, object_key T dag, object_key T dag)]"
  "blobs (stored b T dag w) = (blobs w)((b, object_key T dag) \<mapsto> object_key T dag)"
  "files (stored b T dag w) = files w"
  by (simp_all add: stored_def)

lemma sent_simps [simp]:
  "requests (sent b T dag w) = requests w @ [(b, object_key T dag, object_key T dag)]"
  "blobs (sent b T dag w) = blobs w"
  "files (sent b T dag w) = files w"
  by (simp_all add: sent_def)

lemma upload_loop_Cons:
  "upload_loop fault T b (dag # dags) w =
     (if fault (length (requests w))
      then (Some (UploadError b (object_key T dag)), sent b T dag w)
      else upload_loop fault T b dags (stored b T dag w))"
  by (simp add: upload_from_string_def Let_def sent_def stored_def)

declare upload_loop.simps(2) [simp del]

lemma upload_loop_returns:
  "upload_loop fault T b dags w = (None, w') \<Longrightarrow>
   requests w' = requests w @ map (\<lambda>k. (b, k, k)) (map (object_key T) dags) \<and>
   blobs w' = put_all b (map (object_key T) dags) (blobs w) \<and>
   files w' = files w"
proof (induction dags arbitrary: w)
  case Nil
  then show ?case by simp
next
  case (Cons dag dags)
  show ?case
  proof (cases "fault (length (requests w))")
    case True
    with Cons.prems show ?thesis by (simp add: upload_loop_Cons)
  next
    case False
    with Cons.prems have "upload_loop fault T b dags (stored b T dag w) = (None, w')"
      by (simp add: upload_loop_Cons)
    from Cons.IH [OF this] show ?thesis by (simp add: fun_upd_def)
  qed
qed

lemma upload_loop_raises:
  "j < length dags \<Longrightarrow> fault (length (requests w) + j) \<Longrightarrow>
   (\<forall>i<j. \<not> fault (length (requests w) + i)) \<Longrightarrow>
   fst (upload_loop fault T b dags w) = Some (UploadError b (object_key T (dags ! j))) \<and>
   requests (snd (upload_loop fault T b dags w)) =
     requests w @ map (\<lambda>k. (b, k, k)) (take (Suc j) (map (object_key T) dags)) \<and>
   blobs (snd (upload_loop fault T b dags w)) =
     put_all b (take j (map (object_key T) dags)) (blobs w) \<and>
   files (snd (upload_loop fault T b dags w)) = files w"
proof (induction dags arbitrary: w j)
  case Nil
  then show ?case by simp
next
  case (Cons dag dags)
  show ?case
  proof (cases j)
    case 0
    with Cons.prems show ?thesis
      by (simp add: upload_loop_Cons)
  next
    case (Suc j')
    from Cons.prems Suc have nf: "\<not> fault (length (requests w))"
      by (metis add.right_neutral zero_less_Suc)
    have a: "j' < length dags" using Cons.prems Suc by simp
    have b: "fault (length (requests (stored b T dag w)) + j')" using Cons.prems Suc by simp
    have c: "\<forall>i<j'. \<not> fault (length (requests (stored b T dag w)) + i)"
    proof (intro allI impI)
      fix i assume "i < j'"
      then have "Suc i < j" using Suc by simp
      with Cons.prems(3) have "\<not> fault (length (requests w) + Suc i)" by blast
      then show "\<not> fault (length (requests (stored b T dag w)) + i)" by simp
    qed
    from Cons.IH [OF a b c] nf Suc show ?thesis
      by (simp add: upload_loop_Cons fun_upd_def)
  qed
qed

lemma upload_loop_requests:
  "upload_loop fault T b dags w = (e, w') \<Longrightarrow>
   \<exists>m\<le>length dags. requests w' = requests w @ map (\<lambda>k. (b, k, k)) (take m (map (object_key T) dags))"
proof (induction dags arbitrary: w)
  case Nil
  then show ?case by simp
next
  case (Cons dag dags)
  show ?case
  proof (cases "fault (length (requests w))")
    case True
    with Cons.prems have "requests w' = requests w @ map (\<lambda>k. (b, k, k)) (take 1 (map (object_key T) (dag # dags)))"
      by (auto simp add: upload_loop_Cons)
    then show ?thesis by (intro exI [of _ 1]) simp
  next
    case False
    from False Cons.prems have "upload_loop fault T b dags (stored b T dag w) = (e, w')"
      by (simp add: upload_loop_Cons)
    from Cons.IH [OF this] obtain m where m: "m \<le> length dags"
      "requests w' = requests (stored b T dag w) @ map (\<lambda>k. (b, k, k)) (take m (map (object_key T) dags))"
      by blast
    then show ?thesis by (intro exI [of _ "Suc m"]) simp
  qed
qed

lemma upload_dags_to_composer_unfold:
  "create_dags_list tmp d w = (Inr (temp_dir, dags), w1) \<Longrightarrow>
   upload_dags_to_composer fault tmp d bucket w = upload_loop fault temp_dir bucket dags w1"
  by (simp add: upload_dags_to_composer_def)

subsection \<open>A worked example\<close>

lemma example_staged:
  "fst (create_dags_list ''/tmp/tmpk3v9_q1x'' ''../dags/'' example_world) =
     Inr (''/tmp/tmpk3v9_q1x'', [''/tmp/tmpk3v9_q1x/a.py''])"
  by (simp add: example_world_def create_dags_list_def mkdtemp_def copytree_def glob_def
      files_to_ignore_def ignore_patterns_def ishidden_def os_path_join_def)

lemma example_key: "object_key ''/tmp/tmpk3v9_q1x'' ''/tmp/tmpk3v9_q1x/a.py'' = ''a.py''"
  by (simp add: object_key_def replace.simps)

lemma example_published:
  "fst (upload_dags_to_composer (\<lambda>n. False) ''/tmp/tmpk3v9_q1x'' ''../dags/'' ''your-bucket''
          example_world) = None"
  using example_staged
  by (cases "create_dags_list ''/tmp/tmpk3v9_q1x'' ''../dags/'' example_world")
     (simp add: upload_dags_to_composer_def upload_loop_Cons)

subsection \<open>Claims about the publisher\<close>

text \<open>
  C1. For every file path returned by the selection step, the publish operation sends
  the object's key string itself as the content, to the named bucket and under that key:
  the requests of a run are, in order, one per staged path (up to the first that fails),
  each with the key as its payload; and when the run returns, every staged path's key is
  stored in the bucket with the key as its content. The bytes of the file never enter.
\<close>

theorem publish_uploads_key_as_content:
  assumes sel: "create_dags_list tmp d w = (Inr (temp_dir, dags), w1)"
    and pub: "upload_dags_to_composer fault tmp d bucket w = (e, w')"
  shows "(\<exists>m\<le>length dags. requests w' = requests w @
            map (\<lambda>dag. (bucket, object_key temp_dir dag, object_key temp_dir dag)) (take m dags))
       \<and> (e = None \<longrightarrow>
            requests w' = requests w @
              map (\<lambda>dag. (bucket, object_key temp_dir dag, object_key temp_dir dag)) dags
          \<and> (\<forall>dag\<in>set dags. blobs w' (bucket, object_key temp_dir dag)
                 = Some (object_key temp_dir dag)))"
proof -
  from create_dags_list_keeps [of tmp d w] sel
  have keep: "requests w1 = requests w" "blobs w1 = blobs w" by simp_all
  from sel pub have loop: "upload_loop fault temp_dir bucket dags w1 = (e, w')"
    by (simp add: upload_dags_to_composer_unfold)
  from upload_loop_requests [OF loop] keep
  have part1: "\<exists>m\<le>length dags. requests w' = requests w @
            map (\<lambda>dag. (bucket, object_key temp_dir dag, object_key temp_dir dag)) (take m dags)"
    by (simp add: take_map o_def)
  have part2: "requests w' = requests w @
              map (\<lambda>dag. (bucket, object_key temp_dir dag, object_key temp_dir dag)) dags
          \<and> (\<forall>dag\<in>set dags. blobs w' (bucket, object_key temp_dir dag)
                 = Some (object_key temp_dir dag))" if "e = None"
  proof -
    from loop that have "upload_loop fault temp_dir bucket dags w1 = (None, w')" by simp
    from upload_loop_returns [OF this] keep show ?thesis
      by (simp add: put_all_apply o_def)
  qed
  from part1 part2 show ?thesis by blast
qed

theorem publish_uploads_key_as_content_witness:
  "fst (create_dags_list ''/tmp/tmpk3v9_q1x'' ''../dags/'' example_world)
     = Inr (''/tmp/tmpk3v9_q1x'', [''/tmp/tmpk3v9_q1x/a.py''])
   \<and> fst (upload_dags_to_composer (\<lambda>n. False) ''/tmp/tmpk3v9_q1x'' ''../dags/'' ''your-bucket''
            example_world) = None
   \<and> requests (snd (upload_dags_to_composer (\<lambda>n. False) ''/tmp/tmpk3v9_q1x'' ''../dags/''
                      ''your-bucket'' example_world))
       = [(''your-bucket'', ''a.py'', ''a.py'')]
   \<and> blobs (snd (upload_dags_to_composer (\<lambda>n. False) ''/tmp/tmpk3v9_q1x'' ''../dags/''
                   ''your-bucket'' example_world))
        (''your-bucket'', ''a.py'') = Some ''a.py''"
proof -
  obtain w1 where sel: "create_dags_list ''/tmp/tmpk3v9_q1x'' ''../dags/'' example_world
      = (Inr (''/tmp/tmpk3v9_q1x'', [''/tmp/tmpk3v9_q1x/a.py'']), w1)"
    using example_staged by (metis prod.collapse)
  obtain w' where pub: "upload_dags_to_composer (\<lambda>n. False) ''/tmp/tmpk3v9_q1x'' ''../dags/''
      ''your-bucket'' example_world = (None, w')"
    using example_published by (metis prod.collapse)
  have req: "requests example_world = []"
    by (simp add: example_world_def)
  from publish_uploads_key_as_content [OF sel pub] example_key req
  show ?thesis
    by (simp add: sel pub)
qed

lemma staged_paths:
  assumes fresh: "files w tmp = None" and src: "files w d = Some (Dir entries)"
    and sel: "create_dags_list tmp d w = (Inr (temp_dir, dags), w1)"
  shows "temp_dir = tmp \<and> dags = map (os_path_join tmp) (staged_names entries)"
  using create_dags_list_Dir [OF fresh src] sel by simp



text \<open>
  C5. For every path of the staged list, the object key computed by the publish step is
  the name of an entry of the source directory, that is, the path of the file relative to
  the source directory, and the staging prefix does not occur in it. File names contain
  no slash, and \<^verbatim>\<open>mkdtemp\<close> returns a fresh path that does not end in one.
\<close>

theorem object_key_is_relative_path:
  assumes fresh: "files w tmp = None" and src: "files w d = Some (Dir entries)"
    and names: "\<forall>name\<in>set (map fst entries). CHR ''/'' \<notin> set name"
    and tmp: "tmp \<noteq> [] \<and> last tmp \<noteq> CHR ''/''"
    and sel: "create_dags_list tmp d w = (Inr (temp_dir, dags), w1)"
  shows "\<forall>dag\<in>set dags. \<exists>name\<in>set (map fst entries).
            dag = os_path_join temp_dir name \<and> object_key temp_dir dag = name
          \<and> \<not> sublist (temp_dir @ ''/'') (object_key temp_dir dag)"
proof
  fix dag assume "dag \<in> set dags"
  with staged_paths [OF fresh src sel] obtain name
    where T: "temp_dir = tmp" and dag: "dag = os_path_join tmp name"
      and name: "name \<in> set (staged_names entries)" by auto
  from name have mem: "name \<in> set (map fst entries)" by (simp add: staged_names_def)
  with names have slash: "CHR ''/'' \<notin> set name" by blast
  with tmp have key: "object_key tmp dag = name" by (simp add: dag key_of_staged)
  have "\<not> sublist (tmp @ ''/'') name"
  proof
    assume "sublist (tmp @ ''/'') name"
    then have "set (tmp @ ''/'') \<subseteq> set name" by (rule set_mono_sublist)
    with slash show False by auto
  qed
  with T dag key mem show "\<exists>name\<in>set (map fst entries).
            dag = os_path_join temp_dir name \<and> object_key temp_dir dag = name
          \<and> \<not> sublist (temp_dir @ ''/'') (object_key temp_dir dag)"
    by auto
qed




lemma sample_staged_names: "staged_names sample_entries = [''a.py'', ''etl.py'']"
  by (simp add: staged_names_def sample_entries_def ishidden_def suffix_to_prefix)

lemma sample_staged:
  "create_dags_list ''/tmp/tmpk3v9_q1x'' ''../dags/'' sample_world =
     (Inr (''/tmp/tmpk3v9_q1x'', [''/tmp/tmpk3v9_q1x/a.py'', ''/tmp/tmpk3v9_q1x/etl.py'']),
      sample_world\<lparr>files := (files sample_world)(''/tmp/tmpk3v9_q1x'' \<mapsto>
         Dir (copy_entries files_to_ignore sample_entries))\<rparr>)"
proof -
  have "files sample_world ''/tmp/tmpk3v9_q1x'' = None"
    and "files sample_world ''../dags/'' = Some (Dir sample_entries)"
    by (simp_all add: sample_world_def)
  from create_dags_list_Dir [OF this] show ?thesis
    by (simp add: sample_staged_names os_path_join_def)
qed





text \<open>
  C8. If the upload of the staged path with index k raises and the earlier ones did not,
  the publish step raises that error, no request is sent after it, the k earlier keys
  stay stored, and every other object of the bucket is as it was before.
\<close>

theorem upload_failure_leaves_partial_state:
  assumes sel: "create_dags_list tmp d w = (Inr (temp_dir, dags), w1)"
    and k: "k < length dags"
    and fails: "fault (length (requests w) + k)"
    and before: "\<forall>i<k. \<not> fault (length (requests w) + i)"
  shows "fst (upload_dags_to_composer fault tmp d bucket w)
           = Some (UploadError bucket (object_key temp_dir (dags ! k)))
       \<and> requests (snd (upload_dags_to_composer fault tmp d bucket w))
           = requests w @ map (\<lambda>dag. (bucket, object_key temp_dir dag, object_key temp_dir dag))
                             (take (Suc k) dags)
       \<and> (\<forall>i<k. blobs (snd (upload_dags_to_composer fault tmp d bucket w))
                    (bucket, object_key temp_dir (dags ! i)) = Some (object_key temp_dir (dags ! i)))
       \<and> (\<forall>b' k'. b' = bucket \<and> k' \<in> object_key temp_dir ` set (take k dags)
             \<or> blobs (snd (upload_dags_to_composer fault tmp d bucket w)) (b', k') = blobs w (b', k'))"
proof -
  from create_dags_list_keeps [of tmp d w] sel
  have keep: "requests w1 = requests w" "blobs w1 = blobs w" by simp_all
  have pub: "upload_dags_to_composer fault tmp d bucket w = upload_loop fault temp_dir bucket dags w1"
    using sel by (rule upload_dags_to_composer_unfold)
  from fails before keep have f: "fault (length (requests w1) + k)"
    and b: "\<forall>i<k. \<not> fault (length (requests w1) + i)" by simp_all
  note R = upload_loop_raises [OF k f b, of temp_dir bucket]
  let ?r = "upload_loop fault temp_dir bucket dags w1"
  have keys: "set (take k (map (object_key temp_dir) dags)) = object_key temp_dir ` set (take k dags)"
    by (simp add: take_map)
  have in_take: "object_key temp_dir (dags ! i) \<in> object_key temp_dir ` set (take k dags)"
    if "i < k" for i
  proof -
    from that k have "i < length (take k dags)" by simp
    then have "take k dags ! i \<in> set (take k dags)"
      by (rule nth_mem)
    with that show ?thesis by simp
  qed
  from R have c1: "fst ?r = Some (UploadError bucket (object_key temp_dir (dags ! k)))"
    by simp
  from R keep have c2: "requests (snd ?r)
           = requests w @ map (\<lambda>dag. (bucket, object_key temp_dir dag, object_key temp_dir dag))
                             (take (Suc k) dags)"
    by (simp add: take_map o_def del: take_Suc_Cons)
  from R keep have bl: "blobs (snd ?r) = put_all bucket (take k (map (object_key temp_dir) dags)) (blobs w)"
    by simp
  have c3: "\<forall>i<k. blobs (snd ?r) (bucket, object_key temp_dir (dags ! i))
                 = Some (object_key temp_dir (dags ! i))"
    using in_take by (simp add: bl put_all_apply keys)
  have c4: "\<forall>b' k'. b' = bucket \<and> k' \<in> object_key temp_dir ` set (take k dags)
             \<or> blobs (snd ?r) (b', k') = blobs w (b', k')"
    by (simp add: bl put_all_apply keys)
  from c1 c2 c3 c4 show ?thesis
    unfolding pub by blast
qed

lemma sample_fresh: "files sample_world ''/tmp/tmpk3v9_q1x'' = None"
  by (simp add: sample_world_def)

lemma sample_src: "files sample_world ''../dags/'' = Some (Dir sample_entries)"
  by (simp add: sample_world_def)

lemma sample_names: "\<forall>name\<in>set (map fst sample_entries). CHR ''/'' \<notin> set name"
  by (simp add: sample_entries_def)


lemma sample_key_a: "object_key ''/tmp/tmpk3v9_q1x'' ''/tmp/tmpk3v9_q1x/a.py'' = ''a.py''"
  by (simp add: object_key_def replace.simps)

lemma sample_key_etl: "object_key ''/tmp/tmpk3v9_q1x'' ''/tmp/tmpk3v9_q1x/etl.py'' = ''etl.py''"
  by (simp add: object_key_def replace.simps)

theorem object_key_is_relative_path_witness:
  "files sample_world ''/tmp/tmpk3v9_q1x'' = None
   \<and> files sample_world ''../dags/'' = Some (Dir sample_entries)
   \<and> fst (create_dags_list ''/tmp/tmpk3v9_q1x'' ''../dags/'' sample_world)
       = Inr (''/tmp/tmpk3v9_q1x'', [''/tmp/tmpk3v9_q1x/a.py'', ''/tmp/tmpk3v9_q1x/etl.py''])
   \<and> object_key ''/tmp/tmpk3v9_q1x'' ''/tmp/tmpk3v9_q1x/etl.py'' \<in> set (map fst sample_entries)
   \<and> \<not> sublist ''/tmp/tmpk3v9_q1x/'' (object_key ''/tmp/tmpk3v9_q1x'' ''/tmp/tmpk3v9_q1x/etl.py'')"
proof -
  have tmp: "''/tmp/tmpk3v9_q1x'' \<noteq> [] \<and> last ''/tmp/tmpk3v9_q1x'' \<noteq> CHR ''/''" by simp
  from object_key_is_relative_path [OF sample_fresh sample_src sample_names tmp sample_staged]
  have "\<exists>name\<in>set (map fst sample_entries).
          ''/tmp/tmpk3v9_q1x/etl.py'' = os_path_join ''/tmp/tmpk3v9_q1x'' name
        \<and> object_key ''/tmp/tmpk3v9_q1x'' ''/tmp/tmpk3v9_q1x/etl.py'' = name
        \<and> \<not> sublist (''/tmp/tmpk3v9_q1x'' @ ''/'')
              (object_key ''/tmp/tmpk3v9_q1x'' ''/tmp/tmpk3v9_q1x/etl.py'')"
    by simp
  then have "object_key ''/tmp/tmpk3v9_q1x'' ''/tmp/tmpk3v9_q1x/etl.py'' \<in> set (map fst sample_entries)
     \<and> \<not> sublist (''/tmp/tmpk3v9_q1x'' @ ''/'')
              (object_key ''/tmp/tmpk3v9_q1x'' ''/tmp/tmpk3v9_q1x/etl.py'')"
    by blast
  then show ?thesis
    by (simp add: sample_fresh sample_src sample_staged)
qed




theorem upload_failure_leaves_partial_state_witness:
  "fst (create_dags_list ''/tmp/tmpk3v9_q1x'' ''../dags/'' sample_world)
       = Inr (''/tmp/tmpk3v9_q1x'', [''/tmp/tmpk3v9_q1x/a.py'', ''/tmp/tmpk3v9_q1x/etl.py''])
   \<and> fst (upload_dags_to_composer (\<lambda>n. n = 1) ''/tmp/tmpk3v9_q1x'' ''../dags/''
            ''your-bucket'' sample_world) = Some (UploadError ''your-bucket'' ''etl.py'')
   \<and> requests (snd (upload_dags_to_composer (\<lambda>n. n = 1) ''/tmp/tmpk3v9_q1x'' ''../dags/''
                      ''your-bucket'' sample_world))
       = [(''your-bucket'', ''a.py'', ''a.py''), (''your-bucket'', ''etl.py'', ''etl.py'')]
   \<and> blobs (snd (upload_dags_to_composer (\<lambda>n. n = 1) ''/tmp/tmpk3v9_q1x'' ''../dags/''
                   ''your-bucket'' sample_world)) (''your-bucket'', ''a.py'') = Some ''a.py''
   \<and> blobs (snd (upload_dags_to_composer (\<lambda>n. n = 1) ''/tmp/tmpk3v9_q1x'' ''../dags/''
                   ''your-bucket'' sample_world)) (''your-bucket'', ''etl.py'') = None"
proof -
  let ?dags = "[''/tmp/tmpk3v9_q1x/a.py'', ''/tmp/tmpk3v9_q1x/etl.py'']"
  let ?r = "upload_dags_to_composer (\<lambda>n. n = 1) ''/tmp/tmpk3v9_q1x'' ''../dags/''
              ''your-bucket'' sample_world"
  have req: "requests sample_world = []" and bl: "blobs sample_world = Map.empty"
    by (simp_all add: sample_world_def)
  have k: "(1::nat) < length ?dags" by simp
  have fails: "(\<lambda>n. n = 1) (length (requests sample_world) + (1::nat))"
    by (simp add: req)
  have before: "\<forall>i<(1::nat). \<not> (\<lambda>n. n = 1) (length (requests sample_world) + i)"
    by (simp add: req)
  note T = upload_failure_leaves_partial_state [OF sample_staged k fails before, of "''your-bucket''"]
  from T have c1: "fst ?r = Some (UploadError ''your-bucket'' ''etl.py'')"
    by (simp add: sample_key_etl)
  from T have c2: "requests (snd ?r)
       = [(''your-bucket'', ''a.py'', ''a.py''), (''your-bucket'', ''etl.py'', ''etl.py'')]"
    by (simp add: sample_key_etl sample_key_a req)
  from T have "\<forall>i<(1::nat). blobs (snd ?r) (''your-bucket'', object_key ''/tmp/tmpk3v9_q1x'' (?dags ! i))
      = Some (object_key ''/tmp/tmpk3v9_q1x'' (?dags ! i))"
    by blast
  then have c3: "blobs (snd ?r) (''your-bucket'', ''a.py'') = Some ''a.py''"
    by (simp add: sample_key_a)
  from T have "''your-bucket'' = ''your-bucket''
      \<and> ''etl.py'' \<in> object_key ''/tmp/tmpk3v9_q1x'' ` set (take 1 ?dags)
      \<or> blobs (snd ?r) (''your-bucket'', ''etl.py'') = blobs sample_world (''your-bucket'', ''etl.py'')"
    by blast
  then have c4: "blobs (snd ?r) (''your-bucket'', ''etl.py'') = None"
    by (simp add: sample_key_a bl)
  from c1 c2 c3 c4 show ?thesis by (simp add: sample_staged)
qed

section \<open>Properties of the deployment verifier\<close>

lemma gcloud_cli_call_raises:
  "gcloud_cli_call json_loads sh command =
     Inl (if returncode (sh (''gcloud '' @ command @ '' --quiet --format=json'')) \<noteq> 0
          then CalledProcessError (returncode (sh (''gcloud '' @ command @ '' --quiet --format=json'')))
                 (Some (stderr (sh (''gcloud '' @ command @ '' --quiet --format=json''))))
          else Exception (stderr (sh (''gcloud '' @ command @ '' --quiet --format=json''))))"
  by (simp add: gcloud_cli_call_def subprocess_run_check_def module_globals_def)

lemma retry_exception_again:
  "target (Suc n) = Inl e \<Longrightarrow> Suc n \<noteq> m \<Longrightarrow>
   retry_exception target m n = retry_exception target m (Suc n)"
  by (subst retry_exception.simps) simp

lemma retry_exception_gives_up:
  "target (Suc n) = Inl e \<Longrightarrow> retry_exception target (Suc n) n = Some (Inl e)"
  by (subst retry_exception.simps) simp

lemma retry_exception_returns:
  "target (Suc n) = Inr v \<Longrightarrow> retry_exception target m n = Some (Inr v)"
  by (subst retry_exception.simps) simp

lemma retry_exception_three_failures:
  assumes "target 1 = Inl e1" "target 2 = Inl e2" "target 3 = Inl e3"
  shows "retry_exception target 3 0 = Some (Inl e3)"
proof -
  from assms have a: "target (Suc 0) = Inl e1" "target (Suc (Suc 0)) = Inl e2"
    "target (Suc (Suc (Suc 0))) = Inl e3"
    by (simp_all add: numeral_2_eq_2 numeral_3_eq_3)
  have "retry_exception target (Suc (Suc (Suc 0))) 0
          = retry_exception target (Suc (Suc (Suc 0))) (Suc 0)"
    using a(1) by (rule retry_exception_again) simp
  also have "\<dots> = retry_exception target (Suc (Suc (Suc 0))) (Suc (Suc 0))"
    using a(2) by (rule retry_exception_again) simp
  also have "\<dots> = Some (Inl e3)"
    using a(3) by (rule retry_exception_gives_up)
  finally show ?thesis by (simp add: numeral_3_eq_3)
qed

lemma retry_exception_third_succeeds:
  assumes "target 1 = Inl e1" "target 2 = Inl e2" "target 3 = Inr v"
  shows "retry_exception target 3 0 = Some (Inr v)"
proof -
  from assms have a: "target (Suc 0) = Inl e1" "target (Suc (Suc 0)) = Inl e2"
    "target (Suc (Suc (Suc 0))) = Inr v"
    by (simp_all add: numeral_2_eq_2 numeral_3_eq_3)
  have "retry_exception target (Suc (Suc (Suc 0))) 0
          = retry_exception target (Suc (Suc (Suc 0))) (Suc 0)"
    using a(1) by (rule retry_exception_again) simp
  also have "\<dots> = retry_exception target (Suc (Suc (Suc 0))) (Suc (Suc 0))"
    using a(2) by (rule retry_exception_again) simp
  also have "\<dots> = Some (Inr v)"
    using a(3) by (rule retry_exception_returns)
  finally show ?thesis by (simp add: numeral_3_eq_3)
qed

lemma gcloud_cli_result:
  "gcloud_cli json_loads sh command =
     Some (gcloud_cli_call json_loads (sh 3) command)"
  unfolding gcloud_cli_def
  by (rule retry_exception_three_failures [where ?e1.0 = "projl (gcloud_cli_call json_loads (sh 1) command)" and ?e2.0 = "projl (gcloud_cli_call json_loads (sh 2) command)", THEN trans])
     (simp_all add: gcloud_cli_call_raises)

text \<open>
  C10. The retry-wrapped helper never returns a value. When the CLI call succeeds the
  name \<^verbatim>\<open>json\<close> does not resolve, the \<^verbatim>\<open>NameError\<close> is caught and the body raises
  \<open>Exception\<close> with the standard error of the call; so every attempt raises, all three
  attempts are made, and the helper raises the exception of the third, which carries the
  standard error of that run even when the run succeeded.
\<close>

theorem gcloud_cli_never_returns:
  "(\<exists>e. gcloud_cli json_loads sh command = Some (Inl e))
   \<and> (returncode (sh 3 (''gcloud '' @ command @ '' --quiet --format=json'')) = 0 \<longrightarrow>
        gcloud_cli json_loads sh command =
          Some (Inl (Exception (stderr (sh 3 (''gcloud '' @ command @ '' --quiet --format=json''))))))
   \<and> (returncode (once (''gcloud '' @ command @ '' --quiet --format=json'')) = 0 \<longrightarrow>
        gcloud_cli_call json_loads once command =
          Inl (Exception (stderr (once (''gcloud '' @ command @ '' --quiet --format=json'')))))"
  by (simp add: gcloud_cli_result gcloud_cli_call_raises)

text \<open>
  C3 at a CLI that fails twice and succeeds on the third attempt, printing \<^verbatim>\<open>{}\<close>: the
  helper does not return the parsed output, it raises \<open>Exception\<close> with the (empty)
  standard error of the third attempt.
\<close>

theorem gcloud_cli_success_on_third_attempt_raises:
  "gcloud_cli json_loads
     (\<lambda>n cmd. \<lparr>returncode = (if n < 3 then 1 else 0), stdout = ''{}'',
                stderr = (if n < 3 then ''ERROR: unavailable'' else [])\<rparr>)
     command
   = Some (Inl (Exception []))"
  by (simp add: gcloud_cli_result gcloud_cli_call_raises)

lemma gcloud_cli_three_failures:
  "returncode (sh 3 (''gcloud '' @ command @ '' --quiet --format=json'')) \<noteq> 0 \<Longrightarrow>
   gcloud_cli json_loads sh command =
     Some (Inl (CalledProcessError
        (returncode (sh 3 (''gcloud '' @ command @ '' --quiet --format=json'')))
        (Some (stderr (sh 3 (''gcloud '' @ command @ '' --quiet --format=json''))))))"
  by (simp add: gcloud_cli_result gcloud_cli_call_raises)

theorem gcloud_cli_never_returns_witness:
  "returncode ((\<lambda>n cmd. \<lparr>returncode = 0, stdout = ''[]'', stderr = ''WARNING: beta''\<rparr>) (3::nat)
      (''gcloud '' @ ''run services list'' @ '' --quiet --format=json'')) = 0
   \<and> gcloud_cli (\<lambda>s. Inr s)
        (\<lambda>n cmd. \<lparr>returncode = 0, stdout = ''[]'', stderr = ''WARNING: beta''\<rparr>)
        ''run services list''
      = Some (Inl (Exception ''WARNING: beta''))
   \<and> gcloud_cli_call (\<lambda>s. Inr s)
        (\<lambda>cmd. \<lparr>returncode = 0, stdout = ''[]'', stderr = ''WARNING: beta''\<rparr>)
        ''run services list''
      = Inl (Exception ''WARNING: beta'')"
  using gcloud_cli_never_returns [of "\<lambda>s. Inr s"
      "\<lambda>n cmd. \<lparr>returncode = 0, stdout = ''[]'', stderr = ''WARNING: beta''\<rparr>"
      "''run services list''"
      "\<lambda>cmd. \<lparr>returncode = 0, stdout = ''[]'', stderr = ''WARNING: beta''\<rparr>"]
  by simp

lemma check_call_log: "snd (check_call env args log) = log @ [Run args]"
  by (simp add: check_call_def Let_def)


lemma urlopen_log: "snd (urlopen env req log) = log @ [Get (fst req) (snd req)]"
  by (simp add: urlopen_def split: sum.splits)

lemma run_check_stdout_log: "snd (run_check_stdout env args log) = log @ [Run args]"
  by (simp add: run_check_stdout_def Let_def)








lemma test_end_to_end_passes_iff:
  "fst (test_end_to_end env (service_url, auth_token) log) = Inr () \<longleftrightarrow>
     (\<exists>r1 r2. http env service_url [(''Authorization'', ''Bearer '' @ auth_token)] = Inr r1
         \<and> status r1 = 200
         \<and> http env (service_url @ ''/mnt/nfs/filestore'')
               [(''Authorization'', ''Bearer '' @ auth_token)] = Inr r2
         \<and> status r2 = 200
         \<and> utf8 env (body r2)
         \<and> sublist (date_token (utcnow env)) (body r2))"
proof (cases "http env service_url [(''Authorization'', ''Bearer '' @ auth_token)]")
  case (Inl e)
  then show ?thesis by (simp add: test_end_to_end_def urlopen_def)
next
  case r1: (Inr r1)
  show ?thesis
  proof (cases "status r1 = 200")
    case False
    with r1 show ?thesis by (simp add: test_end_to_end_def urlopen_def)
  next
    case s1: True
    show ?thesis
    proof (cases "http env (service_url @ ''/mnt/nfs/filestore'')
               [(''Authorization'', ''Bearer '' @ auth_token)]")
      case (Inl e)
      with r1 s1 show ?thesis by (simp add: test_end_to_end_def urlopen_def)
    next
      case r2: (Inr r2)
      show ?thesis
      proof (cases "status r2 = 200")
        case False
        with r1 s1 r2 show ?thesis by (simp add: test_end_to_end_def urlopen_def Let_def)
      next
        case True
        with r1 s1 r2 show ?thesis
          by (simp add: test_end_to_end_def urlopen_def decode_def Let_def)
      qed
    qed
  qed
qed

text \<open>
  C9. The test passes exactly when both GET requests, sent with the bearer token to the
  service root and to the mounted path, are answered with status 200 and the body of the
  second contains the date token; a passing run has sent exactly these two requests; and
  the token is weekday, month, day and hour, joined by hyphens.
\<close>

theorem verification_issues_two_requests_and_checks_date:
  "(fst (test_end_to_end env (service_url, auth_token) log) = Inr () \<longleftrightarrow>
     (\<exists>r1 r2. http env service_url [(''Authorization'', ''Bearer '' @ auth_token)] = Inr r1
         \<and> status r1 = 200
         \<and> http env (service_url @ ''/mnt/nfs/filestore'')
               [(''Authorization'', ''Bearer '' @ auth_token)] = Inr r2
         \<and> status r2 = 200
         \<and> utf8 env (body r2)
         \<and> sublist (date_token (utcnow env)) (body r2)))
   \<and> (fst (test_end_to_end env (service_url, auth_token) log) = Inr () \<longrightarrow>
        snd (test_end_to_end env (service_url, auth_token) log)
          = log @ [Get service_url [(''Authorization'', ''Bearer '' @ auth_token)],
                   Get (service_url @ ''/mnt/nfs/filestore'')
                     [(''Authorization'', ''Bearer '' @ auth_token)]])
   \<and> date_token (utcnow env)
       = day_abbr ! weekday (utcnow env) @ ''-'' @ month_abbr ! month (utcnow env) @ ''-''
         @ two_digits (day (utcnow env)) @ ''-'' @ two_digits (hour (utcnow env))"
proof -
  have two: "snd (test_end_to_end env (service_url, auth_token) log)
          = log @ [Get service_url [(''Authorization'', ''Bearer '' @ auth_token)],
                   Get (service_url @ ''/mnt/nfs/filestore'')
                     [(''Authorization'', ''Bearer '' @ auth_token)]]"
    if "fst (test_end_to_end env (service_url, auth_token) log) = Inr ()"
  proof -
    from that obtain r1 r2
      where "http env service_url [(''Authorization'', ''Bearer '' @ auth_token)] = Inr r1"
        and "status r1 = 200"
        and "http env (service_url @ ''/mnt/nfs/filestore'')
               [(''Authorization'', ''Bearer '' @ auth_token)] = Inr r2"
        and "status r2 = 200"
      unfolding test_end_to_end_passes_iff by blast
    then show ?thesis
      by (simp add: test_end_to_end_def urlopen_def decode_def Let_def)
  qed
  have form: "date_token (utcnow env)
       = day_abbr ! weekday (utcnow env) @ ''-'' @ month_abbr ! month (utcnow env) @ ''-''
         @ two_digits (day (utcnow env)) @ ''-'' @ two_digits (hour (utcnow env))"
    by (simp add: date_token_def)
  from test_end_to_end_passes_iff [of env service_url auth_token log] two form
  show ?thesis by blast
qed

lemma verifier_token: "date_token (utcnow verifier_env) = ''Wed-Nov-04-21''"
  by (simp add: verifier_env_def date_token_def weekday_def ymd2ord_def days_before_year_def
      days_before_month_def DAYS_BEFORE_MONTH_def is_leap_def day_abbr_def month_abbr_def
      two_digits_def)

lemma verifier_passes: "fst (pytest_run verifier_env) = Passed"
  by (simp add: pytest_run_def deployed_service_setup_def service_url_auth_token_setup_def
      deployed_service_teardown_def test_end_to_end_def check_call_def run_check_stdout_def
      urlopen_def decode_def strip_def isspace_def build_command_def describe_command_def
      delete_command_def verifier_env_def Let_def sublist_Cons_right
      verifier_token [unfolded verifier_env_def, simplified])




lemma stale_fails: "fst (pytest_run stale_env) = Failed AssertionError"
  by (simp add: pytest_run_def deployed_service_setup_def service_url_auth_token_setup_def
      deployed_service_teardown_def test_end_to_end_def check_call_def run_check_stdout_def
      urlopen_def decode_def strip_def isspace_def build_command_def describe_command_def
      delete_command_def Let_def sublist_Cons_right stale_env_def verifier_env_def
      verifier_token [unfolded verifier_env_def, simplified])

lemma verifier_test_passes:
  "fst (test_end_to_end verifier_env (''https://svc.example'', ''tok'') []) = Inr ()"
  by (simp add: test_end_to_end_def urlopen_def decode_def Let_def sublist_Cons_right
      verifier_env_def verifier_token [unfolded verifier_env_def, simplified])

theorem verification_issues_two_requests_and_checks_date_witness:
  "fst (test_end_to_end verifier_env (''https://svc.example'', ''tok'') []) = Inr ()
   \<and> snd (test_end_to_end verifier_env (''https://svc.example'', ''tok'') [])
       = [Get ''https://svc.example'' [(''Authorization'', ''Bearer tok'')],
          Get ''https://svc.example/mnt/nfs/filestore'' [(''Authorization'', ''Bearer tok'')]]
   \<and> date_token (utcnow verifier_env) = ''Wed-Nov-04-21''"
  using verification_issues_two_requests_and_checks_date
          [of verifier_env "''https://svc.example''" "''tok''" "[]"]
        verifier_test_passes verifier_token
  by simp

end
